theory Spec2Isabelle
  imports Complex_Main "HOL-Library.Log_Nat" "HOL-Library.Sublist"
begin

section \<open>Host values\<close>

text \<open>
  The currency swap form (\<^verbatim>\<open>SwapForm.tsx\<close>) is TypeScript running on a JavaScript
  host. Its logic uses three kinds of host values: strings, the value \<^verbatim>\<open>undefined\<close>
  and Numbers (IEEE 754 binary64).

  \<^item> A string is a \<^typ>\<open>string\<close>; code units above 255 are outside the model.
  \<^item> A value of type \<^verbatim>\<open>T | undefined\<close> (an optional field, a missing property) is a
    \<^typ>\<open>'a option\<close>, \<^term>\<open>None\<close> being \<^verbatim>\<open>undefined\<close>.
  \<^item> A Number is \<^verbatim>\<open>NaN\<close>, an infinity with its sign, or a finite value given by its
    sign (\<^term>\<open>True\<close> for negative) and its magnitude, a non-negative rational. Minus
    zero is \<^term>\<open>Finite True 0\<close>.

  A fourth kind, objects, comes in only where the rate table is read under a name that
  \<^verbatim>\<open>Object.prototype\<close> defines.

  The host operations the form calls (\<^verbatim>\<open>parseFloat\<close>, \<^verbatim>\<open>*\<close>, \<^verbatim>\<open>/\<close>, \<^verbatim>\<open>toFixed\<close>, the
  conversions to boolean, string and number) are not code of the form; they are written
  here as the ECMAScript language specification defines them.
\<close>

datatype number = NaN | Infinity bool | Finite bool rat

definition num :: "rat \<Rightarrow> number" where
  \<comment> \<open>the Number written as the signed rational \<open>q\<close>\<close>
  "num q = Finite (q < 0) \<bar>q\<bar>"

subsection \<open>Truthiness (ToBoolean)\<close>

fun truthyNumber :: "number \<Rightarrow> bool" where
  "truthyNumber NaN = False"
| "truthyNumber (Infinity s) = True"
| "truthyNumber (Finite s a) = (a \<noteq> 0)"

fun truthyString :: "string option \<Rightarrow> bool" where
  "truthyString None = False"
| "truthyString (Some s) = (s \<noteq> [])"

fun truthyPrice :: "number option \<Rightarrow> bool" where
  "truthyPrice None = False"
| "truthyPrice (Some x) = truthyNumber x"

text \<open>
  Reading a property of an object gives \<^verbatim>\<open>undefined\<close>, a Number, or an object
  (functions are objects). An object is truthy and converts to the Number \<^verbatim>\<open>NaN\<close>: the
  objects met here are the functions of \<^verbatim>\<open>Object.prototype\<close> and that prototype itself,
  whose texts are not numerals.
\<close>

datatype jsvalue = Undefined | Number number | Object

fun truthyValue :: "jsvalue \<Rightarrow> bool" where
  "truthyValue Undefined = False"
| "truthyValue (Number x) = truthyNumber x"
| "truthyValue Object = True"

subsection \<open>ToString and ToNumber of a possibly undefined value\<close>

fun toString :: "string option \<Rightarrow> string" where
  "toString None = ''undefined''"
| "toString (Some s) = s"

fun toNumber :: "number option \<Rightarrow> number" where
  "toNumber None = NaN"
| "toNumber (Some x) = x"

fun valueToNumber :: "jsvalue \<Rightarrow> number" where
  "valueToNumber Undefined = NaN"
| "valueToNumber (Number x) = x"
| "valueToNumber Object = NaN"

subsection \<open>Rounding to binary64\<close>

text \<open>
  Every arithmetic result is the exact result rounded to the nearest binary64 value, ties
  to the even significand. A finite binary64 magnitude is \<open>m * 2 ^ p\<close> with
  \<open>m < 2 ^ 53\<close> and \<open>- 1074 \<le> p\<close>, below \<open>2 ^ 1024\<close>.
\<close>

definition flog2 :: "rat \<Rightarrow> int" where
  \<comment> \<open>for \<open>0 < a\<close>: the \<open>e\<close> with \<open>2 ^ e \<le> a < 2 ^ (e + 1)\<close>\<close>
  "flog2 a =
     (if 1 \<le> a then int (floorlog 2 (nat \<lfloor>a\<rfloor>)) - 1
      else let k = - int (floorlog 2 (nat \<lfloor>1 / a\<rfloor>))
           in if 2 powi (k + 1) \<le> a then k + 1 else k)"

definition roundHalfEven :: "rat \<Rightarrow> int" where
  "roundHalfEven x =
     (let n = \<lfloor>x\<rfloor>; f = x - of_int n
      in if f < 1 / 2 then n else if 1 / 2 < f then n + 1
         else if even n then n else n + 1)"

definition roundDouble :: "bool \<Rightarrow> rat \<Rightarrow> number" where
  \<comment> \<open>sign and exact magnitude to the nearest Number\<close>
  "roundDouble s a =
     (if a \<le> 0 then Finite s 0
      else let p = max (flog2 a - 52) (- 1074);
               r = of_int (roundHalfEven (a / 2 powi p)) * 2 powi p
           in if 2 ^ 1024 \<le> r then Infinity s else Finite s r)"

fun multiplyNumber :: "number \<Rightarrow> number \<Rightarrow> number" where
  "multiplyNumber NaN y = NaN"
| "multiplyNumber x NaN = NaN"
| "multiplyNumber (Infinity s) (Infinity t) = Infinity (s \<noteq> t)"
| "multiplyNumber (Infinity s) (Finite t b) = (if b = 0 then NaN else Infinity (s \<noteq> t))"
| "multiplyNumber (Finite s a) (Infinity t) = (if a = 0 then NaN else Infinity (s \<noteq> t))"
| "multiplyNumber (Finite s a) (Finite t b) = roundDouble (s \<noteq> t) (a * b)"

fun divideNumber :: "number \<Rightarrow> number \<Rightarrow> number" where
  "divideNumber NaN y = NaN"
| "divideNumber x NaN = NaN"
| "divideNumber (Infinity s) (Infinity t) = NaN"
| "divideNumber (Infinity s) (Finite t b) = Infinity (s \<noteq> t)"
| "divideNumber (Finite s a) (Infinity t) = Finite (s \<noteq> t) 0"
| "divideNumber (Finite s a) (Finite t b) =
     (if b = 0 then (if a = 0 then NaN else Infinity (s \<noteq> t))
      else roundDouble (s \<noteq> t) (a / b))"

subsection \<open>Decimal digits\<close>

definition decimalDigits :: "(char \<times> nat) list" where
  "decimalDigits =
     [(CHR ''0'', 0), (CHR ''1'', 1), (CHR ''2'', 2), (CHR ''3'', 3), (CHR ''4'', 4),
      (CHR ''5'', 5), (CHR ''6'', 6), (CHR ''7'', 7), (CHR ''8'', 8), (CHR ''9'', 9)]"

definition isDigit :: "char \<Rightarrow> bool" where
  "isDigit c = (map_of decimalDigits c \<noteq> None)"

definition digitVal :: "char \<Rightarrow> nat" where
  "digitVal c = (case map_of decimalDigits c of Some d \<Rightarrow> d | None \<Rightarrow> 0)"

definition digitsVal :: "string \<Rightarrow> nat" where
  "digitsVal ds = foldl (\<lambda>n c. 10 * n + digitVal c) 0 ds"

definition digitChar :: "nat \<Rightarrow> char" where
  "digitChar d = ''0123456789'' ! (d mod 10)"

fun natToDigits :: "nat \<Rightarrow> string" where
  "natToDigits n =
     (if n < 10 then [digitChar n] else natToDigits (n div 10) @ [digitChar (n mod 10)])"

declare natToDigits.simps [simp del]

subsection \<open>parseFloat\<close>

text \<open>
  \<^verbatim>\<open>parseFloat(string)\<close>: leading white space is dropped, then the longest prefix that is
  a decimal literal (an optional sign, then \<^verbatim>\<open>Infinity\<close>, or digits with an optional
  fraction and an optional exponent) is read and the rest of the text is ignored. Without
  such a prefix the result is \<^verbatim>\<open>NaN\<close>.
\<close>

definition isWhiteSpace :: "char \<Rightarrow> bool" where
  "isWhiteSpace c =
     (c \<in> {CHR 0x09, CHR 0x0A, CHR 0x0B, CHR 0x0C, CHR 0x0D, CHR 0x20, CHR 0xA0})"

definition exponentPart :: "string \<Rightarrow> int" where
  \<comment> \<open>the value of an exponent part at the head of the text, 0 when there is none\<close>
  "exponentPart r =
     (case r of
        [] \<Rightarrow> 0
      | c # r1 \<Rightarrow>
          if c = CHR ''e'' \<or> c = CHR ''E'' then
            (case r1 of
               [] \<Rightarrow> 0
             | d # r2 \<Rightarrow>
                 if d = CHR ''-'' then
                   (if takeWhile isDigit r2 = [] then 0
                    else - int (digitsVal (takeWhile isDigit r2)))
                 else if d = CHR ''+'' then int (digitsVal (takeWhile isDigit r2))
                 else int (digitsVal (takeWhile isDigit r1)))
          else 0)"

datatype literal = InfinityLiteral | DecimalLiteral rat

definition unsignedLiteral :: "string \<Rightarrow> literal option" where
  "unsignedLiteral t =
     (if take 8 t = ''Infinity'' then Some InfinityLiteral
      else
        let ip = takeWhile isDigit t; r = dropWhile isDigit t
        in case r of
             [] \<Rightarrow> if ip = [] then None else Some (DecimalLiteral (of_nat (digitsVal ip)))
           | c # r1 \<Rightarrow>
               if c = CHR ''.'' then
                 (let fp = takeWhile isDigit r1; r2 = dropWhile isDigit r1
                  in if ip = [] \<and> fp = [] then None
                     else Some (DecimalLiteral
                            (of_nat (digitsVal (ip @ fp))
                               * 10 powi (exponentPart r2 - int (length fp)))))
               else if ip = [] then None
               else Some (DecimalLiteral (of_nat (digitsVal ip) * 10 powi exponentPart r)))"

definition parseFloat :: "string \<Rightarrow> number" where
  "parseFloat inputString =
     (let trimmed = dropWhile isWhiteSpace inputString;
          neg = (take 1 trimmed = ''-'');
          t = (if take 1 trimmed = ''-'' \<or> take 1 trimmed = ''+'' then drop 1 trimmed
               else trimmed)
      in case unsignedLiteral t of
           None \<Rightarrow> NaN
         | Some InfinityLiteral \<Rightarrow> Infinity neg
         | Some (DecimalLiteral v) \<Rightarrow> roundDouble neg v)"

text \<open>
  \<^verbatim>\<open>parseFloat\<close> applied to a Number first converts it to its shortest decimal text that
  reads back as the same Number, so the Number is returned as it is; only minus zero,
  printed as \<^verbatim>\<open>0\<close>, loses its sign.
\<close>

fun parseFloatNumber :: "number \<Rightarrow> number" where
  "parseFloatNumber (Finite s a) = (if a = 0 then Finite False 0 else Finite s a)"
| "parseFloatNumber x = x"

subsection \<open>Number.prototype.toFixed\<close>

text \<open>
  A finite Number of magnitude \<open>10 ^ 21\<close> or more is printed by \<^verbatim>\<open>toFixed\<close> as
  \<^verbatim>\<open>ToString\<close> prints it: in exponent notation, with the fewest digits \<open>s\<close> (there are
  \<open>k\<close> of them) and the exponent \<open>n\<close> such that \<open>s * 10 ^ (n - k)\<close> rounds to the Number;
  among several such \<open>s\<close> the closest is taken, an even one on a tie.
\<close>

definition digitCandidates :: "rat \<Rightarrow> nat \<Rightarrow> (int \<times> nat) list" where
  "digitCandidates x k =
     (let d = int (length (natToDigits (nat \<lfloor>x\<rfloor>)))
      in filter
           (\<lambda>(n, s). 10 ^ (k - 1) \<le> s \<and> s < 10 ^ k
               \<and> roundDouble False (of_nat s * 10 powi (n - int k)) = roundDouble False x)
           (concat (map (\<lambda>n. let s0 = nat \<lfloor>x / 10 powi (n - int k)\<rfloor>
                                in [(n, s0), (n, s0 + 1)]) [d, d + 1])))"

definition digitError :: "rat \<Rightarrow> nat \<Rightarrow> int \<times> nat \<Rightarrow> rat" where
  "digitError x k c = \<bar>of_nat (snd c) * 10 powi (fst c - int k) - x\<bar>"

fun closestCandidate ::
  "rat \<Rightarrow> nat \<Rightarrow> int \<times> nat \<Rightarrow> (int \<times> nat) list \<Rightarrow> int \<times> nat" where
  "closestCandidate x k best [] = best"
| "closestCandidate x k best (c # cs) =
     (if digitError x k c < digitError x k best
         \<or> (digitError x k c = digitError x k best \<and> even (snd c) \<and> odd (snd best))
      then closestCandidate x k c cs else closestCandidate x k best cs)"

definition shortestDigits :: "rat \<Rightarrow> int \<times> nat" where
  "shortestDigits x =
     (case List.find (\<lambda>k. digitCandidates x k \<noteq> []) [1..<18] of
        Some k \<Rightarrow> closestCandidate x k (hd (digitCandidates x k)) (tl (digitCandidates x k))
      | None \<Rightarrow>
          (let d = int (length (natToDigits (nat \<lfloor>x\<rfloor>)))
           in (d, nat \<lfloor>x / 10 powi (d - 17)\<rfloor>)))"

definition toStringLarge :: "rat \<Rightarrow> string" where
  "toStringLarge x =
     (let (n, s) = shortestDigits x; ds = natToDigits s
      in (if length ds = 1 then ds else hd ds # CHR ''.'' # tl ds)
           @ ''e+'' @ natToDigits (nat (n - 1)))"

text \<open>
  \<^verbatim>\<open>x.toFixed(f)\<close> for \<open>f \<le> 100\<close> (the form calls it with \<open>f = 6\<close>, so the
  \<^verbatim>\<open>RangeError\<close> of a larger \<open>f\<close> cannot occur). A value that is not finite is printed
  by name. Otherwise the sign is split off, and below \<open>10 ^ 21\<close> the magnitude is
  rounded to the integer \<open>n\<close> with \<open>n / 10 ^ f\<close> nearest to it (the larger one on a tie),
  whose digits are padded with zeros to at least \<open>f + 1\<close> and split by the point.
\<close>

definition toFixed :: "nat \<Rightarrow> number \<Rightarrow> string" where
  "toFixed f x =
     (case x of
        NaN \<Rightarrow> ''NaN''
      | Infinity s \<Rightarrow> (if s then ''-Infinity'' else ''Infinity'')
      | Finite s a \<Rightarrow>
          (let sg = (if s \<and> 0 < a then ''-'' else '''')
           in if 10 ^ 21 \<le> a then sg @ toStringLarge a
              else
                let n = nat \<lfloor>a * 10 ^ f + 1 / 2\<rfloor>;
                    m = natToDigits n;
                    z = (if length m \<le> f then replicate (f + 1 - length m) CHR ''0'' @ m
                         else m)
                in sg @ (if f = 0 then m
                         else take (length z - f) z @ ''.'' @ drop (length z - f) z)))"

section \<open>The currency swap form\<close>

subsection \<open>Data\<close>

text \<open>
  \<^verbatim>\<open>CurrenciesModel\<close> is the type of a price observation of the fetched list and of an
  entry of the list of selectable currencies. \<^verbatim>\<open>mapIncorrectObj\<close> maps the tickers
  whose icon file is spelled differently to that spelling.
\<close>

record CurrenciesModel =
  currency :: string
  date :: "string option"
  price :: "number option"
  iconUrl :: "string option"

definition mapIncorrectObj :: "(string \<times> string) list" where
  "mapIncorrectObj =
     [(''STEVMOS'', ''stEVMos''),
      (''RATOM'', ''rATOM''),
      (''STOSMO'', ''stOSMO''),
      (''STATOM'', ''stATOM''),
      (''STLUNA'', ''stLUNA'')]"

text \<open>
  The state \<^verbatim>\<open>prices\<close> (built as \<^verbatim>\<open>priceMap\<close>) is a plain object, created as \<^verbatim>\<open>{}\<close>
  and used as a table from currency symbols to rates. Its own properties are a map from
  symbols to Numbers; its prototype is \<^verbatim>\<open>Object.prototype\<close>, and both reading and
  assigning go through it:

  \<^item> \<^verbatim>\<open>obj[k]\<close> is the own property \<open>k\<close> when there is one. Otherwise it is the property
    that \<^verbatim>\<open>Object.prototype\<close> has under that name: a function for eleven names, and for
    \<^verbatim>\<open>__proto__\<close> the prototype object itself. Otherwise it is \<^verbatim>\<open>undefined\<close>.
  \<^item> \<^verbatim>\<open>obj[k] = x\<close> updates the own property \<open>k\<close> when there is one and creates it
    otherwise, except under the name \<^verbatim>\<open>__proto__\<close>: there the assignment reaches the
    accessor of \<^verbatim>\<open>Object.prototype\<close>, which ignores a Number, and nothing is stored.
\<close>

type_synonym prices = "string \<rightharpoonup> number"

definition objectPrototypeProperties :: "string list" where
  "objectPrototypeProperties =
     [''constructor'', ''__defineGetter__'', ''__defineSetter__'', ''hasOwnProperty'',
      ''__lookupGetter__'', ''__lookupSetter__'', ''isPrototypeOf'', ''propertyIsEnumerable'',
      ''toString'', ''valueOf'', ''__proto__'', ''toLocaleString'']"

definition getProperty :: "prices \<Rightarrow> string \<Rightarrow> jsvalue" where
  "getProperty obj k =
     (case obj k of
        Some x \<Rightarrow> Number x
      | None \<Rightarrow> if k \<in> set objectPrototypeProperties then Object else Undefined)"

definition setProperty :: "prices \<Rightarrow> string \<Rightarrow> number \<Rightarrow> prices" where
  "setProperty obj k x = (if obj k = None \<and> k = ''__proto__'' then obj else obj(k \<mapsto> x))"

text \<open>
  The state \<^verbatim>\<open>formData\<close> is an object that \<^verbatim>\<open>handleInputChange\<close> copies with one
  property defined anew under a computed name (a definition, which never reaches the
  prototype), so it is the map from property names to the values of its own properties;
  a property that was never defined is \<^verbatim>\<open>undefined\<close>. The code reads four of them,
  \<^verbatim>\<open>fromCurrency\<close>, \<^verbatim>\<open>toCurrency\<close>, \<^verbatim>\<open>fromAmount\<close> and \<^verbatim>\<open>toAmount\<close>, none of which
  \<^verbatim>\<open>Object.prototype\<close> has.
\<close>

type_synonym formData = "string \<Rightarrow> string option"

definition initialFormData :: formData where
  "initialFormData = (\<lambda>_. None)(''fromAmount'' := Some '''', ''toAmount'' := Some '''')"

subsection \<open>removeDuplicates\<close>

text \<open>
  \<^verbatim>\<open>uniqueMap\<close> is a host \<^verbatim>\<open>Map\<close>, which keeps its entries in the order of their first
  insertion: an association list that grows at its end.
\<close>

definition key :: "CurrenciesModel \<Rightarrow> string" where
  "key item = currency item @ ''-'' @ toString (date item)"

definition keepFirst ::
  "(string \<times> CurrenciesModel) list \<Rightarrow> CurrenciesModel \<Rightarrow> (string \<times> CurrenciesModel) list" where
  \<comment> \<open>the body of the \<^verbatim>\<open>forEach\<close>\<close>
  "keepFirst uniqueMap item =
     (if map_of uniqueMap (key item) = None then uniqueMap @ [(key item, item)]
      else uniqueMap)"

definition removeDuplicates :: "CurrenciesModel list \<Rightarrow> CurrenciesModel list" where
  "removeDuplicates data = map snd (foldl keepFirst [] data)"

subsection \<open>fetchPrices\<close>

text \<open>
  The part of \<^verbatim>\<open>fetchPrices\<close> that follows the download: from the fetched list
  \<^verbatim>\<open>data\<close> it builds \<^verbatim>\<open>priceMap\<close> and \<^verbatim>\<open>availableCurrencies\<close>, which become the states
  \<^verbatim>\<open>prices\<close> and \<^verbatim>\<open>currencies\<close>.
\<close>

definition iconBase :: string where
  "iconBase = ''https://raw.githubusercontent.com/Switcheo/token-icons/main/tokens/''"

definition iconName :: "string \<Rightarrow> string option" where
  "iconName c =
     (if c \<in> set (map fst mapIncorrectObj) then map_of mapIncorrectObj c else Some c)"

definition availableCurrency :: "CurrenciesModel \<Rightarrow> CurrenciesModel" where
  \<comment> \<open>the entry pushed for a priced observation\<close>
  "availableCurrency item =
     \<lparr>currency = currency item, date = None, price = None,
      iconUrl = Some (iconBase @ toString (iconName (currency item)) @ ''.svg'')\<rparr>"

definition processItem ::
  "prices \<times> CurrenciesModel list \<Rightarrow> CurrenciesModel \<Rightarrow> prices \<times> CurrenciesModel list" where
  \<comment> \<open>the body of the \<^verbatim>\<open>forEach\<close>\<close>
  "processItem st item =
     (case st of (priceMap, availableCurrencies) \<Rightarrow>
        if truthyPrice (price item) then
          (setProperty priceMap (currency item) (parseFloatNumber (toNumber (price item))),
           availableCurrencies @ [availableCurrency item])
        else (priceMap, availableCurrencies))"

definition fetchPrices :: "CurrenciesModel list \<Rightarrow> prices \<times> CurrenciesModel list" where
  "fetchPrices data = foldl processItem (Map.empty, []) (removeDuplicates data)"

subsection \<open>handleInputChange\<close>

text \<open>
  \<^verbatim>\<open>handleInputChange(field, value)\<close> stores \<^verbatim>\<open>newFormData\<close>, the form state with the
  property \<^verbatim>\<open>field\<close> set to the new value. For the three fields that trigger a
  conversion, and when both currencies are selected, it computes \<^verbatim>\<open>fromRate\<close>,
  \<^verbatim>\<open>toRate\<close> and \<^verbatim>\<open>result\<close>, and under its last test a second state update sets
  \<^verbatim>\<open>toAmount\<close> on top of the first. The state after the call is therefore
  \<^verbatim>\<open>newFormData\<close>, with \<^verbatim>\<open>toAmount\<close> replaced when that test passed. The rate table is
  the state \<^verbatim>\<open>prices\<close> at the time of the call.
\<close>

definition fromRate :: "prices \<Rightarrow> string option \<Rightarrow> jsvalue" where
  \<comment> \<open>\<^verbatim>\<open>prices[fromCurrency] || 0\<close>\<close>
  "fromRate prices fromCurrency =
     (if truthyValue (getProperty prices (toString fromCurrency))
      then getProperty prices (toString fromCurrency) else Number (Finite False 0))"

definition toRate :: "prices \<Rightarrow> string option \<Rightarrow> jsvalue" where
  \<comment> \<open>\<^verbatim>\<open>prices[toCurrency]\<close>\<close>
  "toRate prices toCurrency = getProperty prices (toString toCurrency)"

definition result :: "prices \<Rightarrow> formData \<Rightarrow> string" where
  "result prices newFormData =
     (let amountInUSD =
            multiplyNumber (parseFloat (toString (newFormData ''fromAmount'')))
              (valueToNumber (fromRate prices (newFormData ''fromCurrency'')))
      in toFixed 6
           (divideNumber amountInUSD
              (valueToNumber (toRate prices (newFormData ''toCurrency'')))))"

definition handleInputChange ::
  "prices \<Rightarrow> formData \<Rightarrow> string \<Rightarrow> string option \<Rightarrow> formData" where
  "handleInputChange prices formData field v =
     (let newFormData = formData(field := v)
      in if field = ''fromAmount'' \<or> field = ''fromCurrency'' \<or> field = ''toCurrency'' then
           if truthyString (newFormData ''fromCurrency'')
              \<and> truthyString (newFormData ''toCurrency'') then
             if truthyValue (fromRate prices (newFormData ''fromCurrency''))
                \<and> truthyValue (toRate prices (newFormData ''toCurrency''))
                \<and> truthyString (newFormData ''fromAmount'')
             then newFormData(''toAmount'' := Some (result prices newFormData))
             else newFormData
           else newFormData
         else newFormData)"

subsection \<open>Notions used to state the properties\<close>

text \<open>
  A price observation as the fetched list carries it, with its three fields present; the
  sign of a Number; and the shape of a text with exactly six digits after its decimal
  point: an optional minus sign, at least one digit, the point, six digits.
\<close>

definition obs :: "string \<Rightarrow> string \<Rightarrow> rat \<Rightarrow> CurrenciesModel" where
  "obs c d p = \<lparr>currency = c, date = Some d, price = Some (num p), iconUrl = None\<rparr>"

definition positiveNumber :: "number \<Rightarrow> bool" where
  "positiveNumber x =
     (case x of NaN \<Rightarrow> False | Infinity s \<Rightarrow> \<not> s | Finite s a \<Rightarrow> \<not> s \<and> 0 < a)"

definition hasSixFractionDigits :: "string \<Rightarrow> bool" where
  "hasSixFractionDigits t =
     (let u = (if take 1 t = ''-'' then drop 1 t else t);
          ip = takeWhile isDigit u;
          r = dropWhile isDigit u
      in ip \<noteq> [] \<and> take 1 r = ''.'' \<and> length (drop 1 r) = 6 \<and> list_all isDigit (drop 1 r))"

text \<open>
  The rate table and the form state of the examples: currency \<open>A\<close> at rate 2 and
  currency \<open>B\<close> at rate 4; a form with both currencies selected, an amount typed and a
  previous result shown.
\<close>

definition exampleRates :: prices where
  "exampleRates = [''A'' \<mapsto> num 2, ''B'' \<mapsto> num 4]"

definition formOf :: "string \<Rightarrow> string \<Rightarrow> string \<Rightarrow> string \<Rightarrow> formData" where
  "formOf c d amount previous =
     (\<lambda>_. None)(''fromCurrency'' := Some c, ''toCurrency'' := Some d,
        ''fromAmount'' := Some amount, ''toAmount'' := Some previous)"

section \<open>Facts about the host functions\<close>

subsection \<open>Rounding\<close>

text \<open>
  \<^const>\<open>flog2\<close> never overshoots, so a magnitude that already is a binary64 value (a
  significand below \<open>2 ^ 53\<close> at an exponent of at least \<open>- 1074\<close>, below \<open>2 ^ 1024\<close>) is
  returned by \<^const>\<open>roundDouble\<close> as it is.
\<close>

lemma flog2_le:
  assumes "0 < a"
  shows "2 powi (flog2 a) \<le> a"
proof (cases "1 \<le> a")
  case True
  define n where "n = nat \<lfloor>a\<rfloor>"
  have n: "0 < n" "rat_of_nat n \<le> a"
    using True by (auto simp: n_def le_floor_iff)
  have pos: "0 < floorlog 2 n" using n by (simp add: floorlog_def)
  from floorlog_bounds [of n 2] n have "2 ^ (floorlog 2 n - 1) \<le> n" by simp
  then have "(2::rat) ^ (floorlog 2 n - 1) \<le> of_nat n"
    by (metis of_nat_le_iff of_nat_numeral of_nat_power)
  then have le: "(2::rat) ^ (floorlog 2 n - 1) \<le> a"
    using n(2) by (rule order_trans)
  have "flog2 a = int (floorlog 2 n - 1)"
    using True pos by (simp add: flog2_def n_def)
  then show ?thesis using le by (simp only: power_int_of_nat)
next
  case False
  define n where "n = nat \<lfloor>1 / a\<rfloor>"
  define k where "k = - int (floorlog 2 n)"
  have f: "flog2 a = (if 2 powi (k + 1) \<le> a then k + 1 else k)"
    using False by (simp add: flog2_def n_def k_def Let_def)
  have b: "1 < 1 / a" using False assms by simp
  then have n: "0 < n" by (simp add: n_def le_floor_iff)
  from floorlog_bounds [of n 2] n have "n < 2 ^ floorlog 2 n" by simp
  then have "\<lfloor>1 / a\<rfloor> < 2 ^ floorlog 2 n" using b by (simp add: n_def)
  then have "1 / a < 2 ^ floorlog 2 n"
    by (metis floor_less_iff of_int_numeral of_int_power)
  then have "1 / 2 ^ floorlog 2 n \<le> a"
    using assms by (simp add: field_simps)
  then have "2 powi k \<le> a"
    by (simp add: k_def power_int_minus divide_inverse)
  then show ?thesis using f by simp
qed

lemma roundHalfEven_of_int: "roundHalfEven (of_int k) = k"
  by (simp add: roundHalfEven_def)

lemma roundDouble_representable:
  assumes m: "0 < m" "m < 2 ^ 53" and p: "- 1074 \<le> p"
    and lt: "of_int m * 2 powi p < (2::rat) ^ 1024"
  shows "roundDouble s (of_int m * 2 powi p) = Finite s (of_int m * 2 powi p)"
proof -
  define a :: rat where "a = of_int m * 2 powi p"
  have a: "0 < a" using m by (simp add: a_def)
  define q where "q = max (flog2 a - 52) (- 1074)"
  have "2 powi (flog2 a) \<le> a" using a by (rule flog2_le)
  also have "a < 2 ^ 53 * 2 powi p"
  proof -
    have "rat_of_int m < 2 ^ 53" using m(2) by (metis of_int_less_iff of_int_numeral of_int_power)
    then show ?thesis by (simp add: a_def)
  qed
  also have "\<dots> = 2 powi (53 + p)" by (simp add: power_int_add)
  finally have "2 powi (flog2 a) < (2::rat) powi (53 + p)" .
  then have "flog2 a < 53 + p"
    using power_int_increasing [of "53 + p" "flog2 a" "2::rat"] by (cases "flog2 a < 53 + p") auto
  then have qp: "q \<le> p" using p by (simp add: q_def)
  have "a / 2 powi q = of_int m * 2 powi (p - q)"
    by (simp add: a_def power_int_diff)
  also have "\<dots> = of_int (m * 2 ^ nat (p - q))"
    using qp by (simp add: power_int_def)
  finally have "roundHalfEven (a / 2 powi q) = m * 2 ^ nat (p - q)"
    by (simp only: roundHalfEven_of_int)
  then have "of_int (roundHalfEven (a / 2 powi q)) * 2 powi q = of_int m * 2 powi (p - q) * 2 powi
      q"
    using qp by (simp add: power_int_def)
  also have "\<dots> = a" by (simp add: a_def power_int_diff)
  finally have r: "of_int (roundHalfEven (a / 2 powi q)) * 2 powi q = a" .
  have "roundDouble s a = Finite s a"
    using a lt r unfolding roundDouble_def q_def [symmetric] a_def [symmetric]
    by (simp add: Let_def q_def [symmetric])
  then show ?thesis by (simp add: a_def)
qed

lemma roundDouble_int:
  assumes "0 < m" "m < 2 ^ 53"
  shows "roundDouble s (of_int m) = Finite s (of_int m)"
proof -
  have "rat_of_int m < 2 ^ 53" using assms(2) by (metis of_int_less_iff of_int_numeral of_int_power)
  also have "\<dots> < (2::rat) ^ 1024" by simp
  finally have "rat_of_int m * 2 powi 0 < 2 ^ 1024" by simp
  from roundDouble_representable [OF assms _ this, of s] show ?thesis by simp
qed

lemma roundDouble_5: "roundDouble s 5 = Finite s 5"
  using roundDouble_int [of 5 s] by simp

lemma roundDouble_10: "roundDouble s 10 = Finite s 10"
  using roundDouble_int [of 10 s] by simp

lemma roundDouble_20: "roundDouble s 20 = Finite s 20"
  using roundDouble_int [of 20 s] by simp

lemma roundDouble_1e21: "roundDouble s 1000000000000000000000 = Finite s 1000000000000000000000"
  using roundDouble_representable [of "5 ^ 21" 21 s] by simp

lemma roundDouble_2e21: "roundDouble s 2000000000000000000000 = Finite s 2000000000000000000000"
  using roundDouble_representable [of "2 * 5 ^ 21" 21 s] by simp

lemma roundDouble_4e21: "roundDouble s 4000000000000000000000 = Finite s 4000000000000000000000"
  using roundDouble_representable [of "4 * 5 ^ 21" 21 s] by simp

lemma roundDouble_1e22: "roundDouble s 10000000000000000000000 = Finite s 10000000000000000000000"
  using roundDouble_representable [of "5 ^ 22" 22 s] by simp

subsection \<open>Evaluating \<^const>\<open>parseFloat\<close> and
    \<^const>\<open>toFixed\<close>\<close>

lemma floor_rat_divide_numeral:
  "\<lfloor>(numeral a :: rat) / numeral b\<rfloor> = numeral a div numeral b"
  using floor_divide_of_int_eq [of "numeral a" "numeral b", where ?'a = rat] by simp

lemma floor_rat_one_divide_numeral:
  "\<lfloor>(1 :: rat) / numeral b\<rfloor> = 1 div numeral b"
  using floor_divide_of_int_eq [of 1 "numeral b", where ?'a = rat] by simp

lemma isDigit_simps:
  "isDigit c \<longleftrightarrow> c \<in> set ''0123456789''"
  by (auto simp: isDigit_def decimalDigits_def)

lemmas parseFloat_eval =
  parseFloat_def isWhiteSpace_def unsignedLiteral_def isDigit_simps
  exponentPart_def digitsVal_def digitVal_def decimalDigits_def

lemma natToDigits_small: "n < 10 \<Longrightarrow> natToDigits n = [digitChar n]"
  by (simp add: natToDigits.simps)

lemma natToDigits_large:
  "10 \<le> n \<Longrightarrow> natToDigits n = natToDigits (n div 10) @ [digitChar (n mod 10)]"
  by (subst natToDigits.simps) simp

lemma replicate_numeral:
  "replicate (numeral k) x = x # replicate (pred_numeral k) x"
  by (simp add: numeral_eq_Suc)

lemmas toFixed_eval =
  toFixed_def natToDigits_small natToDigits_large digitChar_def
  floor_rat_divide_numeral floor_rat_one_divide_numeral replicate_numeral

lemma parseFloat_abc: "parseFloat ''abc'' = NaN"
  by (simp add: parseFloat_eval)

lemma parseFloat_empty: "parseFloat '''' = NaN"
  by (simp add: parseFloat_eval)

lemma parseFloat_12abc: "parseFloat ''12abc'' = Finite False 12"
  by (simp add: parseFloat_eval roundDouble_int [of 12, simplified])

lemma parseFloat_signed_fraction_exponent: "parseFloat '' -1.5e1x'' = Finite True 15"
  by (simp add: parseFloat_eval roundDouble_int [of 15, simplified])

lemma toFixed_minus_zero: "toFixed 6 (Finite True 0) = ''0.000000''"
  by (simp add: toFixed_eval)

lemma toFixed_small_negative: "toFixed 6 (Finite True (1/10000000)) = ''-0.000000''"
  by (simp add: toFixed_eval)

lemma toFixed_tie: "toFixed 6 (Finite False (12345/10000000)) = ''0.001235''"
  by (simp add: toFixed_eval)

lemma natToDigits_1e21: "length (natToDigits 1000000000000000000000) = 22"
  by (simp add: natToDigits_small natToDigits_large)

lemma digitCandidates_1e21: "digitCandidates 1000000000000000000000 1 = [(22, 1)]"
  using natToDigits_1e21
  by (simp add: digitCandidates_def floor_rat_divide_numeral floor_rat_one_divide_numeral
      roundDouble_1e21 roundDouble_2e21 roundDouble_1e22)

lemma shortestDigits_1e21: "shortestDigits 1000000000000000000000 = (22, 1)"
  using digitCandidates_1e21 by (simp add: shortestDigits_def upt_conv_Cons)

lemma toStringLarge_1e21: "toStringLarge 1000000000000000000000 = ''1e+21''"
  using shortestDigits_1e21
  by (simp add: toStringLarge_def natToDigits_small natToDigits_large digitChar_def)

lemma toFixed_1e21: "toFixed 6 (Finite False 1000000000000000000000) = ''1e+21''"
  using toStringLarge_1e21 by (simp add: toFixed_def)

subsection \<open>The shape and the value of a \<^const>\<open>toFixed\<close> text\<close>

text \<open>
  Below \<open>10 ^ 21\<close> the text printed for six fraction digits has exactly six digits after
  its decimal point; its digits, read as one number, are the magnitude in millionths,
  rounded to the nearest integer (upwards on a tie); and it starts with a minus sign
  exactly for a negative Number other than minus zero.
\<close>

lemma isDigit_digitChar: "isDigit (digitChar d)"
proof -
  define i where "i = d mod 10"
  have "i < 10" by (simp add: i_def)
  then have "i = 0 \<or> i = 1 \<or> i = 2 \<or> i = 3 \<or> i = 4 \<or> i = 5 \<or> i = 6
      \<or> i = 7 \<or> i = 8 \<or> i = 9"
    by arith
  then have "isDigit (''0123456789'' ! i)"
    unfolding isDigit_simps by (elim disjE) simp_all
  then show ?thesis by (simp add: digitChar_def i_def)
qed

lemma natToDigits_digits: "natToDigits n \<noteq> [] \<and> list_all isDigit (natToDigits n)"
proof (induction n rule: natToDigits.induct)
  case (1 n)
  show ?case
  proof (cases "n < 10")
    case True
    then show ?thesis by (simp add: natToDigits_small isDigit_digitChar)
  next
    case False
    then show ?thesis using 1 by (simp add: natToDigits_large isDigit_digitChar)
  qed
qed

lemma hasSixFractionDigits_shape:
  assumes "ip \<noteq> []" "list_all isDigit ip" "length fr = 6" "list_all isDigit fr"
    and "sg = '''' \<or> sg = ''-''"
  shows "hasSixFractionDigits (sg @ ip @ ''.'' @ fr)"
proof -
  have nd: "\<not> isDigit CHR ''.''" "\<not> isDigit CHR ''-''" by (simp_all add: isDigit_simps)
  have tw: "takeWhile isDigit (ip @ ''.'' @ fr) = ip"
    using assms(2) nd by (simp add: takeWhile_tail list_all_iff)
  have dw: "dropWhile isDigit (ip @ ''.'' @ fr) = ''.'' @ fr"
    using assms(2) nd by (simp add: dropWhile_append3 list_all_iff)
  obtain c cs where ip: "ip = c # cs" using assms(1) by (cases ip) auto
  with assms(2) nd have c: "c \<noteq> CHR ''-''" by auto
  have u: "(if take 1 (sg @ ip @ ''.'' @ fr) = ''-'' then drop 1 (sg @ ip @ ''.'' @ fr)
            else sg @ ip @ ''.'' @ fr) = ip @ ''.'' @ fr"
    using assms(5) c by (auto simp: ip)
  show ?thesis
    unfolding hasSixFractionDigits_def u Let_def tw dw using assms by simp
qed

lemma toFixed_six_digits:
  assumes "a < 10 ^ 21"
  shows "hasSixFractionDigits (toFixed 6 (Finite s a))"
proof -
  define m where "m = natToDigits (nat \<lfloor>a * 10 ^ 6 + 1 / 2\<rfloor>)"
  define z where "z = (if length m \<le> 6 then replicate (6 + 1 - length m) CHR ''0'' @ m else m)"
  define sg where "sg = (if s \<and> 0 < a then ''-'' else '''')"
  have m: "m \<noteq> []" "list_all isDigit m"
    using natToDigits_digits by (simp_all add: m_def)
  have z0: "isDigit CHR ''0''" by (simp add: isDigit_simps)
  have z: "6 < length z" "list_all isDigit z"
    using m z0 by (auto simp: z_def list_all_iff)
  have "toFixed 6 (Finite s a) = sg @ take (length z - 6) z @ ''.'' @ drop (length z - 6) z"
    using assms by (simp add: toFixed_def Let_def m_def z_def sg_def)
  moreover have "hasSixFractionDigits (sg @ take (length z - 6) z @ ''.'' @ drop (length z - 6) z)"
  proof (rule hasSixFractionDigits_shape)
    show "take (length z - 6) z \<noteq> []" using z(1) by auto
    show "list_all isDigit (take (length z - 6) z)"
      using z(2) by (auto simp: list_all_iff dest: in_set_takeD)
    show "length (drop (length z - 6) z) = 6" using z(1) by simp
    show "list_all isDigit (drop (length z - 6) z)"
      using z(2) by (auto simp: list_all_iff dest: in_set_dropD)
    show "sg = '''' \<or> sg = ''-''" by (simp add: sg_def)
  qed
  ultimately show ?thesis by simp
qed

lemma digitVal_digitChar: "digitVal (digitChar d) = d mod 10"
proof -
  define i where "i = d mod 10"
  have "i < 10" by (simp add: i_def)
  then have "i = 0 \<or> i = 1 \<or> i = 2 \<or> i = 3 \<or> i = 4 \<or> i = 5 \<or> i = 6
      \<or> i = 7 \<or> i = 8 \<or> i = 9"
    by arith
  then have "digitVal (''0123456789'' ! i) = i"
    unfolding digitVal_def decimalDigits_def by (elim disjE) simp_all
  then show ?thesis by (simp add: digitChar_def i_def)
qed

lemma digitsVal_snoc: "digitsVal (ds @ [c]) = 10 * digitsVal ds + digitVal c"
  by (simp add: digitsVal_def)

lemma digitsVal_natToDigits: "digitsVal (natToDigits n) = n"
proof (induction n rule: natToDigits.induct)
  case (1 n)
  show ?case
  proof (cases "n < 10")
    case True
    then show ?thesis
      using digitsVal_snoc [of "[]" "digitChar n"]
      by (simp add: natToDigits_small digitVal_digitChar digitsVal_def)
  next
    case False
    then show ?thesis
      using 1 by (simp add: natToDigits_large digitsVal_snoc digitVal_digitChar)
  qed
qed

lemma digitsVal_zeros: "digitsVal (replicate k CHR ''0'' @ ds) = digitsVal ds"
proof (induction k)
  case 0
  then show ?case by simp
next
  case (Suc k)
  have "digitVal CHR ''0'' = 0" by (simp add: digitVal_def decimalDigits_def)
  then have "digitsVal (CHR ''0'' # replicate k CHR ''0'' @ ds) = digitsVal (replicate k CHR ''0''
      @ ds)"
    by (simp add: digitsVal_def)
  with Suc show ?case by simp
qed

lemma toFixed_six_value:
  assumes "a < 10 ^ 21"
  shows "digitsVal (filter isDigit (toFixed 6 (Finite s a))) = nat \<lfloor>a * 10 ^ 6 + 1 /
      2\<rfloor>
         \<and> (take 1 (toFixed 6 (Finite s a)) = ''-'' \<longleftrightarrow> s \<and> 0 < a)"
proof -
  define m where "m = natToDigits (nat \<lfloor>a * 10 ^ 6 + 1 / 2\<rfloor>)"
  define z where "z = (if length m \<le> 6 then replicate (6 + 1 - length m) CHR ''0'' @ m else m)"
  define sg where "sg = (if s \<and> 0 < a then ''-'' else '''')"
  have m: "m \<noteq> []" "list_all isDigit m"
    using natToDigits_digits by (simp_all add: m_def)
  have z0: "isDigit CHR ''0''" by (simp add: isDigit_simps)
  have nd: "\<not> isDigit CHR ''.''" "\<not> isDigit CHR ''-''" by (simp_all add: isDigit_simps)
  have z: "6 < length z" "list_all isDigit z"
    using m z0 by (auto simp: z_def list_all_iff)
  have zv: "digitsVal z = nat \<lfloor>a * 10 ^ 6 + 1 / 2\<rfloor>"
    by (simp add: z_def digitsVal_zeros) (simp add: m_def digitsVal_natToDigits)
  have t: "toFixed 6 (Finite s a) = sg @ take (length z - 6) z @ ''.'' @ drop (length z - 6) z"
    using assms by (simp add: toFixed_def Let_def m_def z_def sg_def)
  have fz: "filter isDigit z = z"
    using z(2) by (simp add: list_all_iff)
  have "filter isDigit (take (length z - 6) z) = take (length z - 6) z"
    "filter isDigit (drop (length z - 6) z) = drop (length z - 6) z"
    using z(2) by (auto simp: list_all_iff filter_id_conv dest: in_set_takeD in_set_dropD)
  moreover have "filter isDigit sg = []" using nd by (simp add: sg_def)
  ultimately have "filter isDigit (toFixed 6 (Finite s a)) = z"
    using nd by (simp add: t)
  then have 1: "digitsVal (filter isDigit (toFixed 6 (Finite s a))) = nat \<lfloor>a * 10 ^ 6 + 1
      / 2\<rfloor>"
    by (simp add: zv)
  obtain c cs where c: "take (length z - 6) z = c # cs"
    using z(1) by (cases "take (length z - 6) z") auto
  then have "c \<in> set z" by (metis in_set_takeD list.set_intros(1))
  with z(2) nd have "c \<noteq> CHR ''-''" by (auto simp: list_all_iff)
  then have 2: "take 1 (toFixed 6 (Finite s a)) = ''-'' \<longleftrightarrow> s \<and> 0 < a"
    by (auto simp: t sg_def c)
  from 1 2 show ?thesis by simp
qed

section \<open>Facts about the form's functions\<close>

subsection \<open>\<^const>\<open>removeDuplicates\<close>\<close>

text \<open>
  Appending one observation to the input appends it to the result exactly when its key is
  new. Everything else about \<^const>\<open>removeDuplicates\<close> follows from this by induction
  from the end of the list.
\<close>

lemma keys_keepFirst: "fst ` set (keepFirst acc x) = insert (key x) (fst ` set acc)"
  by (auto simp: keepFirst_def map_of_eq_None_iff)

lemma keepFirst_keys:
  "fst ` set (foldl keepFirst acc xs) = fst ` set acc \<union> key ` set xs"
proof (induction xs arbitrary: acc)
  case Nil
  then show ?case by simp
next
  case (Cons x xs)
  have "fst ` set (foldl keepFirst (keepFirst acc x) xs)
          = insert (key x) (fst ` set acc) \<union> key ` set xs"
    by (simp only: Cons.IH keys_keepFirst)
  then show ?case by simp
qed

lemma find_append:
  "List.find P (xs @ ys) = (case List.find P xs of None \<Rightarrow> List.find P ys | Some x
      \<Rightarrow> Some x)"
  by (induction xs) auto

lemma removeDuplicates_Nil: "removeDuplicates [] = []"
  by (simp add: removeDuplicates_def)

lemma removeDuplicates_snoc:
  "removeDuplicates (xs @ [x]) =
     (if key x \<in> key ` set xs then removeDuplicates xs else removeDuplicates xs @ [x])"
proof -
  have "map_of (foldl keepFirst [] xs) (key x) = None \<longleftrightarrow> key x \<notin> key `
      set xs"
    using keepFirst_keys [of "[]" xs] by (simp add: map_of_eq_None_iff)
  then show ?thesis
    by (simp add: removeDuplicates_def keepFirst_def)
qed

lemma keys_removeDuplicates: "key ` set (removeDuplicates xs) = key ` set xs"
  by (induction xs rule: rev_induct) (auto simp: removeDuplicates_Nil removeDuplicates_snoc)

lemma distinct_keys_removeDuplicates: "distinct (map key (removeDuplicates xs))"
proof (induction xs rule: rev_induct)
  case Nil
  then show ?case by (simp add: removeDuplicates_Nil)
next
  case (snoc x xs)
  then show ?case
    using keys_removeDuplicates [of xs] by (auto simp: removeDuplicates_snoc)
qed

lemma subseq_removeDuplicates: "subseq (removeDuplicates xs) xs"
  by (induction xs rule: rev_induct)
     (auto simp: removeDuplicates_Nil removeDuplicates_snoc intro: subseq_rev_drop_many
         list_emb_append_mono)

lemma set_removeDuplicates_subset: "set (removeDuplicates data) \<subseteq> set data"
  by (induction data rule: rev_induct) (auto simp: removeDuplicates_Nil removeDuplicates_snoc)

lemma removeDuplicates_mono: "set (removeDuplicates xs) \<subseteq> set (removeDuplicates (xs @
    ys))"
proof (induction ys rule: rev_induct)
  case Nil
  then show ?case by simp
next
  case (snoc y ys)
  have "set (removeDuplicates (xs @ ys)) \<subseteq> set (removeDuplicates ((xs @ ys) @ [y]))"
    unfolding removeDuplicates_snoc by auto
  with snoc show ?case by auto
qed

lemma removeDuplicates_keeps_new:
  assumes "key a \<notin> key ` set xs"
  shows "a \<in> set (removeDuplicates (xs @ a # rest))"
proof -
  have "a \<in> set (removeDuplicates (xs @ [a]))"
    unfolding removeDuplicates_snoc using assms by simp
  then show ?thesis
    using removeDuplicates_mono [of "xs @ [a]" rest] by auto
qed

lemma removeDuplicates_drop_later:
  assumes "key b = key a"
  shows "removeDuplicates (xs @ a # ys @ b # zs) = removeDuplicates (xs @ a # ys @ zs)"
proof (induction zs rule: rev_induct)
  case Nil
  have "removeDuplicates ((xs @ a # ys) @ [b]) = removeDuplicates (xs @ a # ys)"
    unfolding removeDuplicates_snoc using assms by simp
  then show ?case by simp
next
  case (snoc z zs)
  have k: "key ` set (xs @ a # ys @ b # zs) = key ` set (xs @ a # ys @ zs)"
    using assms by auto
  have "removeDuplicates ((xs @ a # ys @ b # zs) @ [z]) = removeDuplicates ((xs @ a # ys @ zs) @
      [z])"
    unfolding removeDuplicates_snoc k using snoc.IH by simp
  then show ?case by simp
qed

lemma removeDuplicates_first:
  assumes "x \<in> set (removeDuplicates xs)"
  shows "List.find (\<lambda>y. key y = key x) xs = Some x"
  using assms
proof (induction xs rule: rev_induct)
  case Nil
  then show ?case by (simp add: removeDuplicates_Nil)
next
  case (snoc y ys)
  show ?case
  proof (cases "x \<in> set (removeDuplicates ys)")
    case True
    then show ?thesis using snoc.IH by (simp add: find_append)
  next
    case False
    with snoc.prems have xy: "x = y" and new: "key y \<notin> key ` set ys"
      by (auto simp: removeDuplicates_snoc split: if_splits)
    from new have "List.find (\<lambda>z. key z = key y) ys = None"
      unfolding find_None_iff by (metis imageI)
    then show ?thesis using xy by (simp add: find_append)
  qed
qed

subsection \<open>\<^const>\<open>fetchPrices\<close>\<close>

text \<open>
  One step of the loop assigns the price under the currency symbol, which stores it unless
  the symbol is \<^verbatim>\<open>__proto__\<close> and the table has no own property of that name; a table
  built from the empty object never gets one.
\<close>

lemma parseFloatNumber_truthy:
  "truthyPrice p \<Longrightarrow> Some (parseFloatNumber (toNumber p)) = p"
  by (cases p; cases "the p") auto

lemma fst_processItem:
  "fst (processItem st x) =
     (if truthyPrice (price x) \<and> (currency x = ''__proto__''
         \<longrightarrow> fst st ''__proto__'' \<noteq> None)
      then (fst st)(currency x := price x) else fst st)"
  by (cases st) (auto simp: processItem_def setProperty_def parseFloatNumber_truthy)

lemma snd_processItem:
  "snd (processItem st x) =
     (if truthyPrice (price x) then snd st @ [availableCurrency x] else snd st)"
  by (cases st) (simp add: processItem_def)

lemma snd_foldl_processItem:
  "snd (foldl processItem st xs)
     = snd st @ map availableCurrency (filter (\<lambda>i. truthyPrice (price i)) xs)"
  by (induction xs rule: rev_induct) (simp_all add: snd_processItem)

lemma proto_foldl_processItem:
  "fst st ''__proto__'' = None \<Longrightarrow> fst (foldl processItem st xs) ''__proto__'' = None"
proof (induction xs rule: rev_induct)
  case Nil
  then show ?case by simp
next
  case (snoc x xs)
  then have "fst (foldl processItem st xs) ''__proto__'' = None" by simp
  then have "fst (processItem (foldl processItem st xs) x) ''__proto__'' = None"
    unfolding fst_processItem by (cases "currency x = ''__proto__''") auto
  then show ?case by simp
qed

lemma dom_processItem:
  "dom (fst (processItem st x)) =
     (if truthyPrice (price x) \<and> (currency x = ''__proto__''
         \<longrightarrow> fst st ''__proto__'' \<noteq> None)
      then insert (currency x) (dom (fst st)) else dom (fst st))"
proof (cases "price x")
  case None
  then show ?thesis by (simp add: fst_processItem)
next
  case (Some r)
  then show ?thesis unfolding fst_processItem by auto
qed

lemma dom_foldl_processItem:
  assumes "fst st ''__proto__'' = None"
  shows "dom (fst (foldl processItem st xs))
     = dom (fst st) \<union> (currency ` {i \<in> set xs. truthyPrice (price i)} - {''__proto__''})"
proof (induction xs rule: rev_induct)
  case Nil
  then show ?case by simp
next
  case (snoc x xs)
  have p: "fst (foldl processItem st xs) ''__proto__'' = None"
    using assms by (rule proto_foldl_processItem)
  have f: "foldl processItem st (xs @ [x]) = processItem (foldl processItem st xs) x"
    by simp
  show ?case
  proof (cases "truthyPrice (price x)")
    case False
    then have "{i \<in> set (xs @ [x]). truthyPrice (price i)} = {i \<in> set xs. truthyPrice
        (price i)}"
      by auto
    with False show ?thesis unfolding f dom_processItem snoc.IH by simp
  next
    case True
    then have s: "{i \<in> set (xs @ [x]). truthyPrice (price i)}
        = insert x {i \<in> set xs. truthyPrice (price i)}"
      by auto
    show ?thesis
    proof (cases "currency x = ''__proto__''")
      case True
      with p show ?thesis unfolding f dom_processItem snoc.IH s by auto
    next
      case False
      with True show ?thesis unfolding f dom_processItem snoc.IH s by auto
    qed
  qed
qed

lemma stored_foldl_processItem:
  assumes "fst (foldl processItem (Map.empty, []) xs) c = Some r"
  shows "truthyNumber r \<and> (\<exists>i \<in> set xs. currency i = c \<and> price i = Some r)"
  using assms
proof (induction xs rule: rev_induct)
  case Nil
  then show ?case by simp
next
  case (snoc x xs)
  show ?case
  proof (cases "fst (foldl processItem (Map.empty, []) xs) c = Some r")
    case True
    with snoc.IH show ?thesis by auto
  next
    case False
    with snoc.prems have "truthyPrice (price x) \<and> currency x = c \<and> price x = Some r"
      by (auto simp: fst_processItem split: if_splits)
    then show ?thesis by auto
  qed
qed

lemma last_priced_wins:
  assumes "truthyPrice (price item)"
    and "currency item \<noteq> ''__proto__''"
    and "\<forall>z \<in> set zs. currency z = currency item
        \<longrightarrow> \<not> truthyPrice (price z)"
  shows "fst (foldl processItem st (ys @ item # zs)) (currency item) = price item"
  using assms(3)
proof (induction zs rule: rev_induct)
  case Nil
  have "foldl processItem st (ys @ [item]) = processItem (foldl processItem st ys) item"
    by simp
  then show ?case using assms(1,2) by (simp add: fst_processItem)
next
  case (snoc z zs)
  have "foldl processItem st (ys @ item # zs @ [z])
          = processItem (foldl processItem st (ys @ item # zs)) z"
    by simp
  then show ?case using snoc by (auto simp: fst_processItem)
qed

lemma fetchPrices_snd:
  "snd (fetchPrices data)
     = map availableCurrency (filter (\<lambda>i. truthyPrice (price i)) (removeDuplicates data))"
  by (simp add: fetchPrices_def snd_foldl_processItem)

lemma fetchPrices_dom:
  "dom (fst (fetchPrices data))
     = currency ` {i \<in> set (removeDuplicates data). truthyPrice (price i)} - {''__proto__''}"
  by (simp add: fetchPrices_def dom_foldl_processItem)

lemma currency_availableCurrency: "currency (availableCurrency i) = currency i"
  by (simp add: availableCurrency_def)

lemma fetchPrices_drop_later:
  assumes "key b = key a"
  shows "fetchPrices (xs @ a # ys @ b # zs) = fetchPrices (xs @ a # ys @ zs)"
  by (simp only: fetchPrices_def removeDuplicates_drop_later [OF assms])

lemma fetchPrices_dom_subset: "dom (fst (fetchPrices data)) \<subseteq> currency ` set data"
  unfolding fetchPrices_dom using set_removeDuplicates_subset [of data] by auto

lemma fetchPrices_currencies_subset:
  "currency ` set (snd (fetchPrices data)) \<subseteq> currency ` set data"
  unfolding fetchPrices_snd using set_removeDuplicates_subset [of data]
  by (auto simp: currency_availableCurrency)

lemma iconName_resolved:
  "toString (iconName c) = (case map_of mapIncorrectObj c of Some t \<Rightarrow> t | None
      \<Rightarrow> c)"
proof (cases "map_of mapIncorrectObj c")
  case None
  then have "c \<notin> set (map fst mapIncorrectObj)"
    by (simp add: map_of_eq_None_iff)
  with None show ?thesis by (simp add: iconName_def)
next
  case (Some t)
  then have "c \<in> set (map fst mapIncorrectObj)"
    by (metis map_of_eq_None_iff option.distinct(1) set_map)
  with Some show ?thesis by (simp add: iconName_def)
qed

lemmas fetchPrices_eval =
  fetchPrices_def removeDuplicates_def keepFirst_def key_def processItem_def setProperty_def
  availableCurrency_def obs_def num_def iconName_def mapIncorrectObj_def

subsection \<open>\<^const>\<open>handleInputChange\<close>\<close>

lemma handleInputChange_toAmount:
  assumes "field = ''fromAmount'' \<or> field = ''fromCurrency'' \<or> field = ''toCurrency''"
  shows "handleInputChange prices formData field v ''toAmount'' =
     (if truthyString ((formData(field := v)) ''fromCurrency'')
         \<and> truthyString ((formData(field := v)) ''toCurrency'')
         \<and> truthyValue (fromRate prices ((formData(field := v)) ''fromCurrency''))
         \<and> truthyValue (toRate prices ((formData(field := v)) ''toCurrency''))
         \<and> truthyString ((formData(field := v)) ''fromAmount'')
      then Some (result prices (formData(field := v))) else formData ''toAmount'')"
proof -
  have "field \<noteq> ''toAmount''" using assms by auto
  then have "(formData(field := v)) ''toAmount'' = formData ''toAmount''" by simp
  then show ?thesis using assms by (simp add: handleInputChange_def Let_def)
qed






lemmas handleInputChange_eval =
  handleInputChange_def result_def fromRate_def toRate_def getProperty_def
  objectPrototypeProperties_def exampleRates_def formOf_def num_def

lemma convert_example:
  "handleInputChange exampleRates (formOf ''A'' ''B'' '''' ''old'') ''fromAmount'' (Some ''10'')
      ''toAmount''
     = Some ''5.000000''"
  by (simp add: handleInputChange_eval parseFloat_eval toFixed_eval roundDouble_10 roundDouble_20
      roundDouble_5)

lemma form_session_example:
  "handleInputChange exampleRates
     (handleInputChange exampleRates
        (handleInputChange exampleRates initialFormData ''fromCurrency'' (Some ''A''))
        ''toCurrency'' (Some ''B''))
     ''fromAmount'' (Some ''10'') ''toAmount''
     = Some ''5.000000''"
  by (simp add: handleInputChange_eval initialFormData_def parseFloat_eval toFixed_eval
      roundDouble_10 roundDouble_20 roundDouble_5)

lemma end_to_end_example:
  "handleInputChange
     (fst (fetchPrices [obs ''A'' ''d1'' 1, obs ''A'' ''d1'' 99, obs ''B'' ''d1'' 2]))
     (formOf ''A'' ''B'' '''' ''old'') ''fromAmount'' (Some ''4'') ''toAmount''
     = Some ''2.000000''"
  using roundDouble_int [of 4 False] roundDouble_int [of 2 False]
  by (simp add: fetchPrices_eval handleInputChange_eval parseFloat_eval toFixed_eval)

text \<open>
  What the table inherits shows in both directions. A selected currency named like a
  property of \<^verbatim>\<open>Object.prototype\<close> reads a function as its rate, which is truthy and
  \<^verbatim>\<open>NaN\<close> as a number; a priced observation of the currency \<^verbatim>\<open>__proto__\<close> is listed but
  gets no rate, and reading that name from the table gives the prototype.
\<close>

lemma inherited_property_example:
  "handleInputChange exampleRates (formOf ''A'' ''B'' ''10'' ''5.000000'') ''toCurrency''
     (Some ''constructor'') ''toAmount'' = Some ''NaN''"
  by (simp add: handleInputChange_eval parseFloat_eval roundDouble_10 roundDouble_20 toFixed_def)

lemma proto_assignment_example:
  "fst (fetchPrices [obs ''__proto__'' ''d1'' 5, obs ''B'' ''d1'' 2]) = [''B'' \<mapsto> num 2]
   \<and> map currency (snd (fetchPrices [obs ''__proto__'' ''d1'' 5, obs ''B'' ''d1'' 2]))
       = [''__proto__'', ''B'']
   \<and> getProperty (fst (fetchPrices [obs ''__proto__'' ''d1'' 5, obs ''B'' ''d1'' 2]))
       ''__proto__'' = Object"
  by (simp add: fetchPrices_eval getProperty_def objectPrototypeProperties_def)

section \<open>The claims\<close>

text \<open>
  In the specification, \<open>normalize\<close> is \<^const>\<open>fetchPrices\<close> (its first component is the
  rate table, its second the list of currency entries), and \<open>convert\<close> is the value of
  \<^verbatim>\<open>toAmount\<close> after \<^const>\<open>handleInputChange\<close> has run for one of the three fields that
  trigger a conversion, the previous result being the value of \<^verbatim>\<open>toAmount\<close> before.
\<close>

subsection \<open>C1: when the result is replaced\<close>




subsection \<open>C2: the value of the result\<close>

text \<open>
  \<^bold>\<open>C2\<close>, as the code has it. When both selected currencies are non-empty, both rates are
  truthy and the amount text is non-empty, the result is \<^verbatim>\<open>toFixed(6)\<close> of
  \<^verbatim>\<open>parseFloat(fromAmount) * fromRate / toRate\<close>. Whenever that quotient is finite and
  below \<open>10 ^ 21\<close> in magnitude, the text has exactly six digits after its decimal point
  and denotes the quotient rounded to the nearest millionth. With the rate table
  \<open>{A: 2, B: 4}\<close>, from \<open>A\<close> to \<open>B\<close>, the amount \<^verbatim>\<open>10\<close> gives \<^verbatim>\<open>5.000000\<close>.
\<close>

theorem toAmount_is_toFixed_of_quotient:
  assumes "field = ''fromAmount'' \<or> field = ''fromCurrency'' \<or> field = ''toCurrency''"
    and "truthyString ((formData(field := v)) ''fromCurrency'')"
    and "truthyString ((formData(field := v)) ''toCurrency'')"
    and "truthyValue (fromRate prices ((formData(field := v)) ''fromCurrency''))"
    and "truthyValue (toRate prices ((formData(field := v)) ''toCurrency''))"
    and "(formData(field := v)) ''fromAmount'' = Some amount" and "amount \<noteq> []"
  shows "handleInputChange prices formData field v ''toAmount'' =
           Some (toFixed 6
                  (divideNumber (multiplyNumber (parseFloat amount)
                             (valueToNumber
                                (fromRate prices ((formData(field := v)) ''fromCurrency''))))
                     (valueToNumber (toRate prices ((formData(field := v)) ''toCurrency'')))))
         \<and> (\<forall>s q. divideNumber (multiplyNumber (parseFloat amount)
                             (valueToNumber
                                (fromRate prices ((formData(field := v)) ''fromCurrency''))))
                     (valueToNumber (toRate prices ((formData(field := v)) ''toCurrency''))) =
                         Finite s q
                  \<and> q < 10 ^ 21 \<longrightarrow>
               (\<exists>t. handleInputChange prices formData field v ''toAmount'' = Some t
                    \<and> hasSixFractionDigits t
                    \<and> digitsVal (filter isDigit t) = nat \<lfloor>q * 10 ^ 6 + 1 / 2\<rfloor>
                    \<and> (take 1 t = ''-'' \<longleftrightarrow> s \<and> 0 < q)))
         \<and> handleInputChange exampleRates (formOf ''A'' ''B'' '''' ''old'') ''fromAmount''
               (Some ''10'') ''toAmount'' = Some ''5.000000''"
proof -
  have 1: "handleInputChange prices formData field v ''toAmount'' =
           Some (toFixed 6
                  (divideNumber (multiplyNumber (parseFloat amount)
                             (valueToNumber
                                (fromRate prices ((formData(field := v)) ''fromCurrency''))))
                     (valueToNumber (toRate prices ((formData(field := v)) ''toCurrency'')))))"
    using assms(2-7) by (simp add: handleInputChange_toAmount [OF assms(1)] result_def)
  have 2: "\<exists>t. handleInputChange prices formData field v ''toAmount'' = Some t
                    \<and> hasSixFractionDigits t
                    \<and> digitsVal (filter isDigit t) = nat \<lfloor>q * 10 ^ 6 + 1 / 2\<rfloor>
                    \<and> (take 1 t = ''-'' \<longleftrightarrow> s \<and> 0 < q)"
    if "divideNumber (multiplyNumber (parseFloat amount)
                             (valueToNumber
                                (fromRate prices ((formData(field := v)) ''fromCurrency''))))
                     (valueToNumber (toRate prices ((formData(field := v)) ''toCurrency''))) =
                         Finite s q
                  \<and> q < 10 ^ 21" for s q
    using that toFixed_six_digits [of q s] toFixed_six_value [of q s] by (simp add: 1)
  from 1 2 convert_example show ?thesis by blast
qed

text \<open>
  The theorem at the amount \<^verbatim>\<open>12abc\<close>, of which \<^verbatim>\<open>parseFloat\<close> reads the prefix 12.
\<close>

theorem toAmount_is_toFixed_of_quotient_witness:
  "handleInputChange exampleRates (formOf ''A'' ''B'' '''' ''old'') ''fromAmount''
      (Some ''12abc'') ''toAmount'' = Some ''6.000000''
   \<and> hasSixFractionDigits ''6.000000''
   \<and> digitsVal (filter isDigit ''6.000000'') = 6000000"
proof -
  have f: "''fromAmount'' = ''fromAmount'' \<or> ''fromAmount'' = ''fromCurrency''
      \<or> ''fromAmount'' = ''toCurrency''"
    by simp
  have q: "divideNumber (multiplyNumber (parseFloat ''12abc'') (Finite False 2)) (Finite False 4)
      = Finite False 6"
    using roundDouble_int [of 12 False] roundDouble_int [of 24 False] roundDouble_int [of 6 False]
    by (simp add: parseFloat_eval)
  have t: "toFixed 6 (Finite False 6) = ''6.000000''"
    by (simp add: toFixed_eval)
  note inst = toAmount_is_toFixed_of_quotient [OF f,
      of "formOf ''A'' ''B'' '''' ''old''" "Some ''12abc''" exampleRates
      "''12abc''"]
  have g: "truthyString
        (((formOf ''A'' ''B'' '''' ''old'')(''fromAmount'' := Some ''12abc'')) ''fromCurrency'')"
      "truthyString
        (((formOf ''A'' ''B'' '''' ''old'')(''fromAmount'' := Some ''12abc'')) ''toCurrency'')"
      "truthyValue (fromRate exampleRates
        (((formOf ''A'' ''B'' '''' ''old'')(''fromAmount'' := Some ''12abc'')) ''fromCurrency''))"
      "truthyValue (toRate exampleRates
        (((formOf ''A'' ''B'' '''' ''old'')(''fromAmount'' := Some ''12abc'')) ''toCurrency''))"
      "((formOf ''A'' ''B'' '''' ''old'')(''fromAmount'' := Some ''12abc'')) ''fromAmount''
        = Some ''12abc''"
      "''12abc'' \<noteq> []"
    by (simp_all add: formOf_def exampleRates_def fromRate_def toRate_def getProperty_def num_def)
  have r: "valueToNumber (fromRate exampleRates
        (((formOf ''A'' ''B'' '''' ''old'')(''fromAmount'' := Some ''12abc'')) ''fromCurrency''))
        = Finite False 2"
     "valueToNumber (toRate exampleRates
        (((formOf ''A'' ''B'' '''' ''old'')(''fromAmount'' := Some ''12abc'')) ''toCurrency''))
        = Finite False 4"
    by (simp_all add: formOf_def exampleRates_def fromRate_def toRate_def getProperty_def num_def)
  note c = inst [OF g, unfolded r q t]
  from c have a: "handleInputChange exampleRates (formOf ''A'' ''B'' '''' ''old'') ''fromAmount''
        (Some ''12abc'') ''toAmount'' = Some ''6.000000''"
    by (rule conjunct1)
  from c have "\<forall>s q. Finite False 6 = Finite s q \<and> q < 10 ^ 21 \<longrightarrow>
       (\<exists>t. handleInputChange exampleRates (formOf ''A'' ''B'' '''' ''old'') ''fromAmount''
              (Some ''12abc'') ''toAmount'' = Some t
            \<and> hasSixFractionDigits t
            \<and> digitsVal (filter isDigit t) = nat \<lfloor>q * 10 ^ 6 + 1 / 2\<rfloor>
            \<and> (take 1 t = ''-'' \<longleftrightarrow> s \<and> 0 < q))"
    by (rule conjunct1 [OF conjunct2])
  from this [rule_format, of False 6]
  have "\<exists>t. handleInputChange exampleRates (formOf ''A'' ''B'' '''' ''old'') ''fromAmount''
              (Some ''12abc'') ''toAmount'' = Some t
            \<and> hasSixFractionDigits t
            \<and> digitsVal (filter isDigit t) = nat \<lfloor>(6::rat) * 10 ^ 6 + 1 / 2\<rfloor>"
    by auto
  with a have "hasSixFractionDigits ''6.000000''
      \<and> digitsVal (filter isDigit ''6.000000'') = nat \<lfloor>(6::rat) * 10 ^ 6 + 1 /
          2\<rfloor>"
    by auto
  then show ?thesis using a by (simp add: floor_rat_divide_numeral)
qed

text \<open>
  Six fraction digits are not what every such request gets: the amount \<^verbatim>\<open>2e21\<close> at these
  rates gives the quotient \<open>10 ^ 21\<close>, which \<^verbatim>\<open>toFixed\<close> prints in exponent notation.
\<close>

theorem large_amount_printed_in_exponent_notation:
  "truthyValue (fromRate exampleRates (Some ''A''))
   \<and> truthyValue (toRate exampleRates (Some ''B''))
   \<and> truthyString (Some ''2e21'')
   \<and> handleInputChange exampleRates (formOf ''A'' ''B'' '''' ''old'') ''fromAmount'' (Some
       ''2e21'') ''toAmount''
       = Some ''1e+21''
   \<and> \<not> hasSixFractionDigits ''1e+21''"
  by (simp add: handleInputChange_eval parseFloat_eval roundDouble_2e21 roundDouble_4e21
      roundDouble_1e21 toFixed_1e21
      hasSixFractionDigits_def)

subsection \<open>C3: several priced observations of one currency\<close>

text \<open>
  \<^bold>\<open>C3\<close>, as the code has it. Every priced observation of the deduplicated list
  overwrites the rate of its currency, so the rate table holds, for a currency other than
  \<^verbatim>\<open>__proto__\<close>, the price of the \<^emph>\<open>last\<close> priced observation of that currency in the
  deduplicated list.
\<close>

theorem last_priced_observation_sets_rate:
  assumes "removeDuplicates data = ys @ item # zs"
    and "truthyPrice (price item)"
    and "currency item \<noteq> ''__proto__''"
    and "\<forall>z \<in> set zs. currency z = currency item
        \<longrightarrow> \<not> truthyPrice (price z)"
  shows "fst (fetchPrices data) (currency item) = price item"
  unfolding fetchPrices_def assms(1) using assms(2,3,4) by (rule last_priced_wins)

theorem last_priced_observation_sets_rate_witness:
  "removeDuplicates [obs ''A'' ''d1'' 1, obs ''A'' ''d2'' 2, obs ''A'' ''d3'' 0]
     = [obs ''A'' ''d1'' 1] @ obs ''A'' ''d2'' 2 # [obs ''A'' ''d3'' 0]
   \<and> truthyPrice (price (obs ''A'' ''d2'' 2))
   \<and> currency (obs ''A'' ''d2'' 2) \<noteq> ''__proto__''
   \<and> \<not> truthyPrice (price (obs ''A'' ''d3'' 0))
   \<and> fst (fetchPrices [obs ''A'' ''d1'' 1, obs ''A'' ''d2'' 2,
       obs ''A'' ''d3'' 0]) ''A'' = Some (num 2)"
proof -
  have r: "removeDuplicates [obs ''A'' ''d1'' 1, obs ''A'' ''d2'' 2, obs ''A'' ''d3'' 0]
     = [obs ''A'' ''d1'' 1] @ obs ''A'' ''d2'' 2 # [obs ''A'' ''d3'' 0]"
    by (simp add: obs_def removeDuplicates_def keepFirst_def key_def)
  have t: "truthyPrice (price (obs ''A'' ''d2'' 2))"
    by (simp add: obs_def num_def)
  have c: "currency (obs ''A'' ''d2'' 2) \<noteq> ''__proto__''"
    by (simp add: obs_def)
  have z: "\<forall>z \<in> set [obs ''A'' ''d3'' 0]. currency z = currency (obs ''A'' ''d2'' 2)
      \<longrightarrow> \<not> truthyPrice (price z)"
    by (simp add: obs_def num_def)
  from last_priced_observation_sets_rate [OF r t c z] have "fst (fetchPrices [obs ''A'' ''d1'' 1,
      obs ''A'' ''d2'' 2, obs ''A'' ''d3'' 0]) ''A'' = Some (num 2)"
    by (simp add: obs_def)
  moreover have "\<not> truthyPrice (price (obs ''A'' ''d3'' 0))"
    by (simp add: obs_def num_def)
  ultimately show ?thesis using r t c by blast
qed

text \<open>
  The first observation does not win: of two priced observations of \<open>A\<close> under different
  dates, the rate table holds the price of the second. Of two priced observations of the
  currency \<^verbatim>\<open>__proto__\<close> it holds neither.
\<close>

theorem first_priced_observation_overwritten:
  "removeDuplicates [obs ''A'' ''d1'' 1, obs ''A'' ''d2'' 2] = [obs ''A'' ''d1'' 1,
      obs ''A'' ''d2'' 2]
   \<and> fst (fetchPrices [obs ''A'' ''d1'' 1, obs ''A'' ''d2'' 2]) ''A'' = price (obs ''A''
       ''d2'' 2)
   \<and> fst (fetchPrices [obs ''A'' ''d1'' 1, obs ''A'' ''d2'' 2]) ''A'' \<noteq> price (obs
       ''A'' ''d1'' 1)
   \<and> removeDuplicates [obs ''__proto__'' ''d1'' 1, obs ''__proto__'' ''d2'' 2]
       = [obs ''__proto__'' ''d1'' 1, obs ''__proto__'' ''d2'' 2]
   \<and> fst (fetchPrices [obs ''__proto__'' ''d1'' 1,
       obs ''__proto__'' ''d2'' 2]) ''__proto__'' = None"
  by (simp add: fetchPrices_eval)

subsection \<open>C4: deduplication by currency and date\<close>

text \<open>
  \<^bold>\<open>C4\<close>, where the code departs from it. The claim, and the comment in the code
  (\<^emph>\<open>keep only the first occurrence of each currency-date combination\<close>), have the first
  observation of every pair of currency and date retained. The code compares the texts
  \<^verbatim>\<open>currency-date\<close> instead. At the input \<open>[(A-B, C, 1), (A, B-C, 2)]\<close> the second
  observation has a pair of currency and date that no earlier observation has, but the key
  text of the first, and is dropped: the rate table is \<open>{A-B: 1}\<close> and has no rate for
  \<open>A\<close>, although the second observation alone is retained. Where the key texts differ
  with the pairs the code does what the claim says: observations of one currency under two
  dates are both retained, and for the input \<open>[(A, d1, 1), (A, d1, 99), (B, d1, 2)]\<close> the
  second observation is dropped and the rate table is \<open>{A: 1, B: 2}\<close>.
\<close>

theorem text_key_drops_observation_of_new_pair:
  "removeDuplicates [obs ''A-B'' ''C'' 1, obs ''A'' ''B-C'' 2] = [obs ''A-B'' ''C'' 1]
   \<and> (currency (obs ''A'' ''B-C'' 2), date (obs ''A'' ''B-C'' 2))
       \<noteq> (currency (obs ''A-B'' ''C'' 1), date (obs ''A-B'' ''C'' 1))
   \<and> key (obs ''A'' ''B-C'' 2) = key (obs ''A-B'' ''C'' 1)
   \<and> fst (fetchPrices [obs ''A-B'' ''C'' 1, obs ''A'' ''B-C'' 2]) = [''A-B'' \<mapsto> num 1]
   \<and> map currency (snd (fetchPrices [obs ''A-B'' ''C'' 1, obs ''A'' ''B-C'' 2])) = [''A-B'']
   \<and> removeDuplicates [obs ''A'' ''B-C'' 2] = [obs ''A'' ''B-C'' 2]
   \<and> removeDuplicates [obs ''A'' ''d1'' 1, obs ''A'' ''d2'' 2, obs ''B'' ''d1'' 3]
       = [obs ''A'' ''d1'' 1, obs ''A'' ''d2'' 2, obs ''B'' ''d1'' 3]
   \<and> removeDuplicates [obs ''A'' ''d1'' 1, obs ''A'' ''d1'' 99, obs ''B'' ''d1'' 2]
       = [obs ''A'' ''d1'' 1, obs ''B'' ''d1'' 2]
   \<and> fst (fetchPrices [obs ''A'' ''d1'' 1, obs ''A'' ''d1'' 99, obs ''B'' ''d1'' 2])
       = [''A'' \<mapsto> num 1, ''B'' \<mapsto> num 2]"
  by (simp add: fetchPrices_eval)

subsection \<open>C5: the rates that are stored\<close>

text \<open>
  \<^bold>\<open>C5\<close>, as the code has it. Every rate stored in the rate table is the price of a
  retained observation of that currency and is truthy: it is neither zero nor \<^verbatim>\<open>NaN\<close>
  (and not absent). So a currency none of whose retained observations has a truthy price
  has no entry.
\<close>

theorem stored_rate_truthy:
  assumes "fst (fetchPrices data) c = Some r"
  shows "truthyNumber r
         \<and> (\<exists>i \<in> set (removeDuplicates data). currency i = c
             \<and> price i = Some r)"
  using assms unfolding fetchPrices_def by (rule stored_foldl_processItem)

theorem stored_rate_truthy_witness:
  "fst (fetchPrices [obs ''A'' ''d1'' 1, obs ''B'' ''d1'' 0]) ''A'' = Some (num 1)
   \<and> truthyNumber (num 1)
   \<and> fst (fetchPrices [obs ''A'' ''d1'' 1, obs ''B'' ''d1'' 0]) ''B'' = None"
proof -
  have a: "fst (fetchPrices [obs ''A'' ''d1'' 1, obs ''B'' ''d1'' 0]) ''A'' = Some (num 1)"
    by (simp add: fetchPrices_eval)
  have b: "fst (fetchPrices [obs ''A'' ''d1'' 1, obs ''B'' ''d1'' 0]) ''B'' = None"
    by (simp add: fetchPrices_eval)
  from stored_rate_truthy [OF a] have "truthyNumber (num 1)" by simp
  with a b show ?thesis by simp
qed

text \<open>
  A stored rate need not be positive: the test \<^verbatim>\<open>if (item.price)\<close> lets a negative price
  pass.
\<close>

theorem negative_rate_stored:
  "fst (fetchPrices [obs ''A'' ''d1'' (- 1)]) ''A'' = Some (num (- 1))
   \<and> \<not> positiveNumber (num (- 1))"
  by (simp add: fetchPrices_eval positiveNumber_def)

subsection \<open>C6: the list of currencies\<close>

text \<open>
  \<^bold>\<open>C6\<close>, as the code has it. The list of currency entries has one entry for every
  retained observation with a truthy price, in the order of these observations, which is
  the order of the input; the keys of the rate table are exactly the currencies that occur
  in it, the symbol \<^verbatim>\<open>__proto__\<close> apart.
\<close>

theorem availableCurrencies_follow_priced_observations:
  "snd (fetchPrices data)
     = map availableCurrency (filter (\<lambda>i. truthyPrice (price i)) (removeDuplicates data))
   \<and> map currency (snd (fetchPrices data))
       = map currency (filter (\<lambda>i. truthyPrice (price i)) (removeDuplicates data))
   \<and> dom (fst (fetchPrices data)) = currency ` set (snd (fetchPrices data)) - {''__proto__''}
   \<and> subseq (map currency (snd (fetchPrices data))) (map currency data)"
proof (intro conjI)
  show s: "snd (fetchPrices data)
     = map availableCurrency (filter (\<lambda>i. truthyPrice (price i)) (removeDuplicates data))"
    by (rule fetchPrices_snd)
  show m: "map currency (snd (fetchPrices data))
       = map currency (filter (\<lambda>i. truthyPrice (price i)) (removeDuplicates data))"
    by (simp add: s currency_availableCurrency comp_def)
  have "set (map currency (snd (fetchPrices data)))
      = currency ` {i \<in> set (removeDuplicates data). truthyPrice (price i)}"
    unfolding m by auto
  then show "dom (fst (fetchPrices data))
      = currency ` set (snd (fetchPrices data)) - {''__proto__''}"
    unfolding fetchPrices_dom by simp
  have "subseq (filter (\<lambda>i. truthyPrice (price i)) (removeDuplicates data)) data"
    using subseq_removeDuplicates [of data] subseq_filter_left subseq_order.order_trans by blast
  then show "subseq (map currency (snd (fetchPrices data))) (map currency data)"
    unfolding m by (rule subseq_map)
qed

theorem availableCurrencies_follow_priced_observations_witness:
  "map currency (snd (fetchPrices [obs ''A'' ''d1'' 1, obs ''B'' ''d1'' 0, obs ''C'' ''d2'' 3]))
     = [''A'', ''C'']
   \<and> dom (fst (fetchPrices [obs ''A'' ''d1'' 1, obs ''B'' ''d1'' 0, obs ''C'' ''d2'' 3]))
     = {''A'', ''C''}"
proof -
  have r: "removeDuplicates [obs ''A'' ''d1'' 1, obs ''B'' ''d1'' 0, obs ''C'' ''d2'' 3]
      = [obs ''A'' ''d1'' 1, obs ''B'' ''d1'' 0, obs ''C'' ''d2'' 3]"
    by (simp add: obs_def removeDuplicates_def keepFirst_def key_def)
  note inst = availableCurrencies_follow_priced_observations [of "[obs ''A'' ''d1'' 1,
      obs ''B'' ''d1'' 0, obs ''C'' ''d2'' 3]", unfolded r]
  from inst have 1: "map currency (snd (fetchPrices [obs ''A'' ''d1'' 1, obs ''B'' ''d1'' 0,
      obs ''C'' ''d2'' 3]))
     = [''A'', ''C'']"
    by (simp add: obs_def num_def currency_availableCurrency)
  from inst have "dom (fst (fetchPrices [obs ''A'' ''d1'' 1, obs ''B'' ''d1'' 0,
      obs ''C'' ''d2'' 3]))
     = currency ` set (snd (fetchPrices [obs ''A'' ''d1'' 1, obs ''B'' ''d1'' 0,
         obs ''C'' ''d2'' 3]))
       - {''__proto__''}"
    by blast
  then have "dom (fst (fetchPrices [obs ''A'' ''d1'' 1, obs ''B'' ''d1'' 0, obs ''C'' ''d2'' 3]))
     = set (map currency (snd (fetchPrices [obs ''A'' ''d1'' 1, obs ''B'' ''d1'' 0,
         obs ''C'' ''d2'' 3])))
       - {''__proto__''}"
    by simp
  with 1 show ?thesis by simp
qed

text \<open>
  A currency priced under two dates is listed twice, while the rate table has one key
  for it; and a priced observation of the currency \<^verbatim>\<open>__proto__\<close> is listed, while the
  rate table has no key for it.
\<close>

theorem currency_listed_twice:
  "map currency (snd (fetchPrices [obs ''ETH'' ''d1'' 1, obs ''ETH'' ''d2'' 2])) = [''ETH'',
      ''ETH'']
   \<and> dom (fst (fetchPrices [obs ''ETH'' ''d1'' 1, obs ''ETH'' ''d2'' 2])) = {''ETH''}
   \<and> map currency (snd (fetchPrices [obs ''__proto__'' ''d1'' 5])) = [''__proto__'']
   \<and> dom (fst (fetchPrices [obs ''__proto__'' ''d1'' 5])) = {}"
  by (simp add: fetchPrices_eval)

subsection \<open>C7: an amount that does not parse\<close>

text \<open>
  \<^bold>\<open>C7\<close>, as the code has it. When the amount text parses to \<^verbatim>\<open>NaN\<close>, the previous result
  stays if the text is empty (or absent); if the text is not empty and both currencies are
  selected with truthy rates, the result is replaced by the text \<^verbatim>\<open>NaN\<close>.
\<close>

theorem unparsable_amount_gives_NaN_or_withholds:
  assumes "field = ''fromAmount'' \<or> field = ''fromCurrency'' \<or> field = ''toCurrency''"
    and "parseFloat (toString ((formData(field := v)) ''fromAmount'')) = NaN"
  shows "handleInputChange prices formData field v ''toAmount'' =
           (if truthyString ((formData(field := v)) ''fromCurrency'')
               \<and> truthyString ((formData(field := v)) ''toCurrency'')
               \<and> truthyValue (fromRate prices ((formData(field := v)) ''fromCurrency''))
               \<and> truthyValue (toRate prices ((formData(field := v)) ''toCurrency''))
               \<and> truthyString ((formData(field := v)) ''fromAmount'')
            then Some ''NaN'' else formData ''toAmount'')
         \<and> (\<not> truthyString ((formData(field := v)) ''fromAmount'') \<longrightarrow>
              handleInputChange prices formData field v ''toAmount'' = formData ''toAmount'')"
proof -
  have "result prices (formData(field := v)) = ''NaN''"
    using assms(2) by (simp add: result_def toFixed_def)
  then show ?thesis
    by (simp add: handleInputChange_toAmount [OF assms(1)])
qed

theorem unparsable_amount_gives_NaN_or_withholds_witness:
  "parseFloat (toString (Some '''')) = NaN
   \<and> handleInputChange exampleRates (formOf ''A'' ''B'' ''10'' ''5.000000'') ''fromAmount''
       (Some '''') ''toAmount''
       = Some ''5.000000''"
proof -
  have f: "''fromAmount'' = ''fromAmount'' \<or> ''fromAmount'' = ''fromCurrency''
      \<or> ''fromAmount'' = ''toCurrency''"
    by simp
  have n: "parseFloat (toString (((formOf ''A'' ''B'' ''10'' ''5.000000'')(''fromAmount'' := Some
      '''')) ''fromAmount'')) = NaN"
    by (simp add: parseFloat_eval)
  from unparsable_amount_gives_NaN_or_withholds [OF f n, of exampleRates] n show ?thesis
    by (simp add: formOf_def)
qed

text \<open>
  The update is not withheld for the amount \<^verbatim>\<open>abc\<close> with two valid rates.
\<close>

theorem unparsable_amount_shown_as_NaN:
  "parseFloat ''abc'' = NaN
   \<and> truthyValue (fromRate exampleRates (Some ''A''))
   \<and> truthyValue (toRate exampleRates (Some ''B''))
   \<and> handleInputChange exampleRates (formOf ''A'' ''B'' ''10'' ''5.000000'') ''fromAmount''
       (Some ''abc'') ''toAmount''
       = Some ''NaN''"
  by (simp add: handleInputChange_eval parseFloat_eval toFixed_def)

subsection \<open>C8: the icon address\<close>

text \<open>
  \<^bold>\<open>C8\<close>. The icon address of every currency entry is the base address followed by the
  resolved ticker and \<^verbatim>\<open>.svg\<close>, where the resolved ticker is the entry of the override
  table when the currency is one of its keys and the currency symbol otherwise. The
  address of \<^verbatim>\<open>STEVMOS\<close> ends with \<^verbatim>\<open>stEVMos.svg\<close>, that of \<^verbatim>\<open>BTC\<close> with \<^verbatim>\<open>BTC.svg\<close>.
\<close>

theorem iconUrl_resolved_ticker:
  "(\<forall>m \<in> set (snd (fetchPrices data)).
      iconUrl m
        = Some (iconBase
                 @ (case map_of mapIncorrectObj (currency m) of Some t \<Rightarrow> t | None
                     \<Rightarrow> currency m)
                 @ ''.svg''))
   \<and> map iconUrl (snd (fetchPrices [obs ''STEVMOS'' ''d1'' 1, obs ''BTC'' ''d1'' 2]))
       = [Some (iconBase @ ''stEVMos.svg''), Some (iconBase @ ''BTC.svg'')]"
proof (intro conjI ballI)
  fix m
  assume "m \<in> set (snd (fetchPrices data))"
  then obtain i where m: "m = availableCurrency i"
    unfolding fetchPrices_snd by auto
  show "iconUrl m
        = Some (iconBase
                 @ (case map_of mapIncorrectObj (currency m) of Some t \<Rightarrow> t | None
                     \<Rightarrow> currency m)
                 @ ''.svg'')"
    unfolding m currency_availableCurrency
    by (simp add: availableCurrency_def iconName_resolved)

next
  show "map iconUrl (snd (fetchPrices [obs ''STEVMOS'' ''d1'' 1, obs ''BTC'' ''d1'' 2]))
       = [Some (iconBase @ ''stEVMos.svg''), Some (iconBase @ ''BTC.svg'')]"
    by (simp add: fetchPrices_eval)
qed

theorem iconUrl_resolved_ticker_witness:
  "availableCurrency (obs ''STEVMOS'' ''d1'' 1) \<in> set (snd (fetchPrices [obs ''STEVMOS''
      ''d1'' 1, obs ''BTC'' ''d1'' 2]))
   \<and> iconUrl (availableCurrency (obs ''STEVMOS'' ''d1'' 1))
       = Some ''https://raw.githubusercontent.com/Switcheo/token-icons/main/tokens/stEVMos.svg''"
proof -
  have m: "availableCurrency (obs ''STEVMOS'' ''d1'' 1) \<in> set (snd (fetchPrices [obs
      ''STEVMOS'' ''d1'' 1, obs ''BTC'' ''d1'' 2]))"
    by (simp add: fetchPrices_eval)
  from iconUrl_resolved_ticker [of "[obs ''STEVMOS'' ''d1'' 1, obs ''BTC'' ''d1'' 2]"] m
  have "iconUrl (availableCurrency (obs ''STEVMOS'' ''d1'' 1))
        = Some (iconBase
                 @ (case map_of mapIncorrectObj (currency (availableCurrency (obs ''STEVMOS''
                     ''d1'' 1))) of
                      Some t \<Rightarrow> t | None \<Rightarrow> currency (availableCurrency (obs
                          ''STEVMOS'' ''d1'' 1)))
                 @ ''.svg'')"
    by blast
  then have "iconUrl (availableCurrency (obs ''STEVMOS'' ''d1'' 1))
       = Some ''https://raw.githubusercontent.com/Switcheo/token-icons/main/tokens/stEVMos.svg''"
    by (simp add: availableCurrency_def obs_def mapIncorrectObj_def iconBase_def)
  with m show ?thesis by simp
qed

subsection \<open>C9: colliding keys\<close>

text \<open>
  \<^bold>\<open>C9\<close>. The observations with currency \<^verbatim>\<open>A-B\<close> and date \<^verbatim>\<open>C\<close>, and with currency \<^verbatim>\<open>A\<close>
  and date \<^verbatim>\<open>B-C\<close>, have the same key. Whenever an observation has the key of an earlier
  one, the rate table and the list of currency entries are what they would be without it;
  if its currency occurs nowhere else in the input, that currency has no rate and no entry;
  and the earlier observation is retained when it is the first with that key.
\<close>

theorem colliding_key_drops_later_observation:
  "key \<lparr>currency = ''A-B'', date = Some ''C'', price = p, iconUrl = u\<rparr>
     = key \<lparr>currency = ''A'', date = Some ''B-C'', price = p', iconUrl = u'\<rparr>
   \<and> currency \<lparr>currency = ''A-B'', date = Some ''C'', price = p, iconUrl = u\<rparr>
     \<noteq> currency \<lparr>currency = ''A'', date = Some ''B-C'', price = p',
         iconUrl = u'\<rparr>
   \<and> (key b = key a \<longrightarrow>
        fetchPrices (xs @ a # ys @ b # zs) = fetchPrices (xs @ a # ys @ zs))
   \<and> (key b = key a \<longrightarrow> currency b \<notin> currency ` set (xs @ a # ys @ zs)
       \<longrightarrow>
        fst (fetchPrices (xs @ a # ys @ b # zs)) (currency b) = None
        \<and> currency b \<notin> currency ` set (snd (fetchPrices (xs @ a # ys @ b # zs))))
   \<and> (key b = key a \<longrightarrow> key a \<notin> key ` set xs \<longrightarrow>
        a \<in> set (removeDuplicates (xs @ a # ys @ b # zs))
        \<and> removeDuplicates (xs @ a # ys @ b # zs) = removeDuplicates (xs @ a # ys @ zs))"
proof (intro conjI impI)
  show "key \<lparr>currency = ''A-B'', date = Some ''C'', price = p, iconUrl = u\<rparr>
     = key \<lparr>currency = ''A'', date = Some ''B-C'', price = p', iconUrl = u'\<rparr>"
    by (simp add: key_def)
next
  show "currency \<lparr>currency = ''A-B'', date = Some ''C'', price = p, iconUrl = u\<rparr>
     \<noteq> currency \<lparr>currency = ''A'', date = Some ''B-C'', price = p',
         iconUrl = u'\<rparr>"
    by simp
next
  assume "key b = key a"
  then show "fetchPrices (xs @ a # ys @ b # zs) = fetchPrices (xs @ a # ys @ zs)"
    by (rule fetchPrices_drop_later)
next
  assume k: "key b = key a" and n: "currency b \<notin> currency ` set (xs @ a # ys @ zs)"
  have e: "fetchPrices (xs @ a # ys @ b # zs) = fetchPrices (xs @ a # ys @ zs)"
    using k by (rule fetchPrices_drop_later)
  show "fst (fetchPrices (xs @ a # ys @ b # zs)) (currency b) = None"
    unfolding e using n fetchPrices_dom_subset [of "xs @ a # ys @ zs"] by (meson domIff subsetD)
  show "currency b \<notin> currency ` set (snd (fetchPrices (xs @ a # ys @ b # zs)))"
    unfolding e using n fetchPrices_currencies_subset [of "xs @ a # ys @ zs"] by blast
next
  assume "key b = key a" and "key a \<notin> key ` set xs"
  then show "a \<in> set (removeDuplicates (xs @ a # ys @ b # zs))"
    by (intro removeDuplicates_keeps_new)
next
  assume "key b = key a"
  then show "removeDuplicates (xs @ a # ys @ b # zs) = removeDuplicates (xs @ a # ys @ zs)"
    by (rule removeDuplicates_drop_later)
qed

theorem colliding_key_drops_later_observation_witness:
  "key (obs ''A'' ''B-C'' 7) = key (obs ''A-B'' ''C'' 5)
   \<and> currency (obs ''A'' ''B-C'' 7) \<notin> currency ` set ([] @ obs ''A-B'' ''C'' 5 # [] @
       [])
   \<and> key (obs ''A-B'' ''C'' 5) \<notin> key ` set []
   \<and> fetchPrices [obs ''A-B'' ''C'' 5, obs ''A'' ''B-C'' 7] = fetchPrices [obs ''A-B'' ''C'' 5]
   \<and> fst (fetchPrices [obs ''A-B'' ''C'' 5, obs ''A'' ''B-C'' 7]) ''A'' = None
   \<and> ''A'' \<notin> currency ` set (snd (fetchPrices [obs ''A-B'' ''C'' 5,
       obs ''A'' ''B-C'' 7]))
   \<and> removeDuplicates [obs ''A-B'' ''C'' 5, obs ''A'' ''B-C'' 7] = removeDuplicates [obs
       ''A-B'' ''C'' 5]
   \<and> obs ''A-B'' ''C'' 5 \<in> set (removeDuplicates [obs ''A-B'' ''C'' 5,
       obs ''A'' ''B-C'' 7])"
proof -
  have k: "key (obs ''A'' ''B-C'' 7) = key (obs ''A-B'' ''C'' 5)"
    by (simp add: key_def obs_def)
  have n: "currency (obs ''A'' ''B-C'' 7) \<notin> currency ` set ([] @ obs ''A-B'' ''C'' 5 # [] @
      [])"
    by (simp add: obs_def)
  have f: "key (obs ''A-B'' ''C'' 5) \<notin> key ` set []"
    by simp
  note inst = colliding_key_drops_later_observation [of None None None None "obs ''A'' ''B-C'' 7"
      "obs ''A-B'' ''C'' 5" "[]" "[]" "[]"]
  from inst k have 1: "fetchPrices ([] @ obs ''A-B'' ''C'' 5 # [] @ obs ''A'' ''B-C'' 7 # [])
      = fetchPrices ([] @ obs ''A-B'' ''C'' 5 # [] @ [])"
    by blast
  from inst k n have 2: "fst (fetchPrices ([] @ obs ''A-B'' ''C'' 5 # [] @ obs ''A'' ''B-C'' 7 #
      []))
        (currency (obs ''A'' ''B-C'' 7)) = None
      \<and> currency (obs ''A'' ''B-C'' 7)
         \<notin> currency ` set (snd (fetchPrices ([] @ obs ''A-B'' ''C'' 5 # [] @ obs ''A''
             ''B-C'' 7 # [])))"
    by blast
  from inst k f have 3: "obs ''A-B'' ''C'' 5
        \<in> set (removeDuplicates ([] @ obs ''A-B'' ''C'' 5 # [] @ obs ''A'' ''B-C'' 7 # []))
      \<and> removeDuplicates ([] @ obs ''A-B'' ''C'' 5 # [] @ obs ''A'' ''B-C'' 7 # [])
        = removeDuplicates ([] @ obs ''A-B'' ''C'' 5 # [] @ [])"
    by blast
  have c: "currency (obs ''A'' ''B-C'' 7) = ''A''" by (simp add: obs_def)
  from 1 [simplified] 2 [unfolded c, simplified] 3 [simplified] k n f
  show ?thesis unfolding c by blast
qed

subsection \<open>C10: what an edit leaves unchanged\<close>

text \<open>
  \<^bold>\<open>C10\<close>. \<^const>\<open>handleInputChange\<close> leaves every field other than the edited one and
  \<^verbatim>\<open>toAmount\<close> unchanged; the edited field always takes its new value; and when the edited
  field is not \<^verbatim>\<open>toAmount\<close> and the conditions for a conversion do not all hold,
  \<^verbatim>\<open>toAmount\<close> keeps its previous value.
\<close>

theorem handleInputChange_frame:
  "(k \<noteq> field \<and> k \<noteq> ''toAmount''
      \<longrightarrow> handleInputChange prices formData field v k = formData k)
   \<and> handleInputChange prices formData field v field = v
   \<and> (field \<noteq> ''toAmount''
        \<and> \<not> ((field = ''fromAmount'' \<or> field = ''fromCurrency''
            \<or> field = ''toCurrency'')
             \<and> truthyString ((formData(field := v)) ''fromCurrency'')
             \<and> truthyString ((formData(field := v)) ''toCurrency'')
             \<and> truthyValue (fromRate prices ((formData(field := v)) ''fromCurrency''))
             \<and> truthyValue (toRate prices ((formData(field := v)) ''toCurrency''))
             \<and> truthyString ((formData(field := v)) ''fromAmount''))
        \<longrightarrow> handleInputChange prices formData field v ''toAmount'' = formData
            ''toAmount'')"
  by (auto simp: handleInputChange_def Let_def)

theorem handleInputChange_frame_witness:
  "handleInputChange exampleRates (formOf ''A'' ''B'' ''10'' ''5.000000'') ''toCurrency'' (Some
      ''C'') ''fromCurrency'' = Some ''A''
   \<and> handleInputChange exampleRates (formOf ''A'' ''B'' ''10'' ''5.000000'') ''toCurrency''
       (Some ''C'') ''fromAmount'' = Some ''10''
   \<and> handleInputChange exampleRates (formOf ''A'' ''B'' ''10'' ''5.000000'') ''toCurrency''
       (Some ''C'') ''toCurrency'' = Some ''C''
   \<and> handleInputChange exampleRates (formOf ''A'' ''B'' ''10'' ''5.000000'') ''toCurrency''
       (Some ''C'') ''toAmount'' = Some ''5.000000''"
proof -
  note inst = handleInputChange_frame [of _ "''toCurrency''" exampleRates "formOf ''A'' ''B''
      ''10'' ''5.000000''" "Some ''C''"]
  from inst [of "''fromCurrency''"] inst [of "''fromAmount''"]
  show ?thesis
    by (simp add: formOf_def exampleRates_def toRate_def getProperty_def
        objectPrototypeProperties_def)
qed

end
